theory Spec2Isabelle
  imports Complex_Main "HOL-Library.Log_Nat"
begin

section \<open>Numbers\<close>

text \<open>
  The scoring code computes on Python floats, which are IEEE 754 binary64 numbers. A
  float is modelled by the rational number it denotes, and every arithmetic step of the
  source is the exact operation followed by the rounding to the nearest binary64 number
  (\<open>binary64\<close>, a tie going to the even significand). Overflow to infinity and NaN
  are outside the model. Python's \<^verbatim>\<open>min(a, b)\<close> and \<^verbatim>\<open>max(a, b)\<close> on two numbers
  are \<open>min\<close> and \<open>max\<close> of the linear order.
\<close>

text \<open>The nearest integer, a tie going to the even neighbour.\<close>

definition round_half_even :: "rat \<Rightarrow> int" where
  "round_half_even x =
     (let f = \<lfloor>x\<rfloor>; d = x - of_int f
      in if d < 1 / 2 then f
         else if 1 / 2 < d then f + 1
         else if even f then f else f + 1)"

text \<open>
  The binary exponent of a number other than 0: the \<open>e\<close> with
  \<open>2\<^sup>e \<le> |x| < 2\<^sup>e\<^sup>+\<^sup>1\<close>, found from the bit lengths of numerator and denominator.
\<close>

definition float_exponent :: "rat \<Rightarrow> int" where
  "float_exponent x =
     (let p = fst (quotient_of \<bar>x\<bar>); q = snd (quotient_of \<bar>x\<bar>);
          k = bitlen p - bitlen q
      in if 2 powi k \<le> \<bar>x\<bar> then k else k - 1)"

text \<open>
  Rounding to binary64: a significand of 53 bits, and a spacing of \<open>2\<^sup>-\<^sup>1\<^sup>0\<^sup>7\<^sup>4\<close> in the
  subnormal range.
\<close>

definition binary64 :: "rat \<Rightarrow> rat" where
  "binary64 x =
     (if x = 0 then 0
      else let e = max (float_exponent x - 52) (- 1074)
           in of_int (round_half_even (x / 2 powi e)) * 2 powi e)"

text \<open>\<^verbatim>\<open>a / b\<close> and \<^verbatim>\<open>a * b\<close> on floats.\<close>

definition float_div :: "rat \<Rightarrow> rat \<Rightarrow> rat" where
  "float_div a b = binary64 (a / b)"

definition float_mul :: "rat \<Rightarrow> rat \<Rightarrow> rat" where
  "float_mul a b = binary64 (a * b)"

text \<open>
  \<^verbatim>\<open>round(x, n)\<close> on a float: the decimal with \<open>n\<close> digits nearest to the exact value
  of \<open>x\<close>, a tie going to the even digit, read back as a float.
\<close>

definition py_round :: "rat \<Rightarrow> nat \<Rightarrow> rat" where
  "py_round x n = binary64 (of_int (round_half_even (x * 10 ^ n)) / 10 ^ n)"

text \<open>\<^verbatim>\<open>int(x)\<close> on a number truncates towards zero.\<close>

definition py_int :: "rat \<Rightarrow> int" where
  "py_int x = (if 0 \<le> x then \<lfloor>x\<rfloor> else \<lceil>x\<rceil>)"

section \<open>Frames and rows\<close>

text \<open>
  A pandas DataFrame, as far as the service reads it: the labels of its numeric columns
  (dtype float64 or int64) and the rows, each row giving the cell of every column (the
  cells of labels outside \<open>columns\<close> are never read). The text columns of the CSV
  (family status, education and the like) are not read by the scoring code and are
  left out.
  A row taken out of the frame (\<^verbatim>\<open>df.iloc[i]\<close>) is a Series indexed by the column
  labels, here a map from label to cell.
\<close>

type_synonym series_row = "string \<rightharpoonup> rat"

text \<open>
  A column handed to a function as a \<^verbatim>\<open>pd.Series\<close> is numeric or holds text
  (dtype object).
\<close>

datatype series = Numeric "rat list" | Text "string list"

text \<open>\<^verbatim>\<open>series.empty\<close>\<close>

fun series_empty :: "series \<Rightarrow> bool" where
  "series_empty (Numeric cells) \<longleftrightarrow> cells = []"
| "series_empty (Text cells) \<longleftrightarrow> cells = []"

record data_frame =
  columns :: "string list"
  rows :: "(string \<Rightarrow> rat) list"

text \<open>
  What the code can raise. \<^verbatim>\<open>KeyboardInterrupt\<close> and \<^verbatim>\<open>SystemExit\<close> derive from
  \<^verbatim>\<open>BaseException\<close> only; the others are instances of \<^verbatim>\<open>Exception\<close>.
  \<^verbatim>\<open>EmptyDataError\<close> is what \<^verbatim>\<open>pd.read_csv\<close> raises on a file without any line,
  \<^verbatim>\<open>OSError\<close> stands for the errors of opening and reading the file.
\<close>

datatype py_exception =
    KeyError string
  | IndexError string
  | TypeError string
  | EmptyDataError string
  | OSError string
  | KeyboardInterrupt
  | SystemExit string

text \<open>\<^verbatim>\<open>isinstance(exc, Exception)\<close>\<close>

fun is_Exception :: "py_exception \<Rightarrow> bool" where
  "is_Exception KeyboardInterrupt \<longleftrightarrow> False"
| "is_Exception (SystemExit m) \<longleftrightarrow> False"
| "is_Exception exc \<longleftrightarrow> True"

text \<open>\<^verbatim>\<open>str(exc)\<close>: a KeyError prints the repr of its key, in single quotes.\<close>

fun str_exc :: "py_exception \<Rightarrow> string" where
  "str_exc (KeyError k) = CHR 0x27 # k @ [CHR 0x27]"
| "str_exc (IndexError m) = m"
| "str_exc (TypeError m) = m"
| "str_exc (EmptyDataError m) = m"
| "str_exc (OSError m) = m"
| "str_exc KeyboardInterrupt = []"
| "str_exc (SystemExit m) = m"

text \<open>
  \<^verbatim>\<open>series < value\<close> with a float on the right: the mask of the cells that, as
  floats, are below the value; Python refuses to order a text cell and a number and
  raises TypeError.
\<close>

fun series_lt :: "series \<Rightarrow> rat \<Rightarrow> py_exception + bool list" where
  "series_lt (Numeric cells) v = Inr (map (\<lambda>c. binary64 c < v) cells)"
| "series_lt (Text []) v = Inr []"
| "series_lt (Text (t # ts)) v =
     Inl (TypeError ''< not supported between instances of str and float'')"

text \<open>\<^verbatim>\<open>pd.DataFrame()\<close>\<close>

definition empty_frame :: data_frame where
  "empty_frame = \<lparr>columns = [], rows = []\<rparr>"

text \<open>\<^verbatim>\<open>df.empty\<close>: some axis has length zero.\<close>

definition df_empty :: "data_frame \<Rightarrow> bool" where
  "df_empty df \<longleftrightarrow> columns df = [] \<or> rows df = []"

text \<open>\<^verbatim>\<open>df.get(label)\<close>: the column, or None when the frame has no such label.\<close>

definition df_get :: "data_frame \<Rightarrow> string \<Rightarrow> series option" where
  "df_get df label =
     (if label \<in> set (columns df) then Some (Numeric (map (\<lambda>r. r label) (rows df)))
      else None)"

text \<open>\<^verbatim>\<open>df[label]\<close>: the column, raising KeyError when the frame has no such label.\<close>

definition df_getitem :: "data_frame \<Rightarrow> string \<Rightarrow> py_exception + rat list" where
  "df_getitem df label =
     (if label \<in> set (columns df) then Inr (map (\<lambda>r. r label) (rows df))
      else Inl (KeyError label))"

text \<open>The Series that \<^verbatim>\<open>iloc\<close> makes of a stored row.\<close>

definition as_series :: "data_frame \<Rightarrow> (string \<Rightarrow> rat) \<Rightarrow> series_row" where
  "as_series df r = (\<lambda>label. if label \<in> set (columns df) then Some (r label) else None)"

text \<open>
  \<^verbatim>\<open>float(row.get(label, 0) or 0)\<close>: the cell as a float, and 0 when the label is
  absent (a cell equal to 0 is falsy and replaced by 0, the same number).
\<close>

definition float_or_zero :: "series_row \<Rightarrow> string \<Rightarrow> rat" where
  "float_or_zero row label =
     (case row label of None \<Rightarrow> 0 | Some v \<Rightarrow> if v = 0 then 0 else binary64 v)"

section \<open>Scoring Service: API.py\<close>

definition simple_risk_score :: "series_row \<Rightarrow> rat" where
  "simple_risk_score row =
     (let credit = float_or_zero row ''AMT_CREDIT'';
          income = float_or_zero row ''AMT_INCOME_TOTAL''
      in if income \<le> 0 then 1 / 2
         else let ratio = min (float_div credit income) 5
              in py_round (min (float_div ratio 5) 1) 3)"

text \<open>
  \<^verbatim>\<open>(series < value).mean()\<close>: the mean of the comparison mask, True counting 1 and
  False 0; pandas sums in float64 and divides the sum by the count.
\<close>

definition mask_mean :: "bool list \<Rightarrow> rat" where
  "mask_mean bs = float_div (sum_list (map of_bool bs)) (of_nat (length bs))"

text \<open>
  The \<^verbatim>\<open>try\<close> of the source turns an exception of the comparison into the result
  None.
\<close>

definition compute_percentile :: "series option \<Rightarrow> rat \<Rightarrow> rat option" where
  "compute_percentile column v =
     (case column of
        None \<Rightarrow> None
      | Some s \<Rightarrow>
          (if series_empty s then None
           else (case series_lt s v of
                   Inl exc \<Rightarrow> None
                 | Inr flags \<Rightarrow>
                     (let pct = float_mul (mask_mean flags) 100
                      in Some (py_round pct 1)))))"

text \<open>
  The three clauses of the explanation, in the order of the source; the response joins
  their texts with \<^verbatim>\<open>" | "\<close>.
\<close>

datatype clause =
    Ratio_clause rat
  | Ratio_not_computable
  | Credit_percentile_clause rat
  | Credit_percentile_unavailable
  | Income_percentile_clause rat
  | Income_percentile_unavailable

record prediction =
  client_id :: "int + string"
  probability_default :: rat
  prediction_label :: string
  risk_level_label :: string
  ratio_credit_income :: "rat option"
  credit_percentile :: "rat option"
  income_percentile :: "rat option"
  explanation :: "clause list"

text \<open>
  The literals \<^verbatim>\<open>0.7\<close> and \<^verbatim>\<open>0.4\<close> of the source are the floats nearest to 7/10 and
  4/10; \<^verbatim>\<open>0.5\<close>, \<^verbatim>\<open>1.0\<close> and \<^verbatim>\<open>5.0\<close> are exact.
\<close>

definition format_prediction :: "series_row \<Rightarrow> rat \<Rightarrow> data_frame \<Rightarrow> prediction" where
  "format_prediction row score df =
     (let decision = (if 1 / 2 \<le> score then ''defaut'' else ''remboursement_normal'');
          cid = (case row ''SK_ID_CURR'' of
                   None \<Rightarrow> Inr ''inconnu''
                 | Some v \<Rightarrow> Inl (py_int v));
          credit = float_or_zero row ''AMT_CREDIT'';
          income = float_or_zero row ''AMT_INCOME_TOTAL'';
          ratio = (if 0 < income then Some (py_round (float_div credit income) 3) else None);
          pct_credit = compute_percentile (df_get df ''AMT_CREDIT'') credit;
          pct_income = compute_percentile (df_get df ''AMT_INCOME_TOTAL'') income;
          level = (if binary64 (7 / 10) \<le> score then ''eleve''
                   else if binary64 (4 / 10) \<le> score then ''modere'' else ''faible'');
          explanation_parts =
            [case ratio of Some r \<Rightarrow> Ratio_clause r | None \<Rightarrow> Ratio_not_computable,
             case pct_credit of Some p \<Rightarrow> Credit_percentile_clause p
                              | None \<Rightarrow> Credit_percentile_unavailable,
             case pct_income of Some p \<Rightarrow> Income_percentile_clause p
                              | None \<Rightarrow> Income_percentile_unavailable]
      in \<lparr>client_id = cid,
          probability_default = score,
          prediction_label = decision,
          risk_level_label = level,
          ratio_credit_income = ratio,
          credit_percentile = pct_credit,
          income_percentile = pct_income,
          explanation = explanation_parts\<rparr>)"

text \<open>
  The request after \<^verbatim>\<open>request.args.get\<close>: \<open>client_id_arg\<close> is the result of
  \<^verbatim>\<open>get("client_id", type=int)\<close>, None when the parameter is absent or is not an
  integer; \<open>path_arg\<close> is the optional \<^verbatim>\<open>path\<close> parameter.
\<close>

record request =
  client_id_arg :: "int option"
  path_arg :: "string option"

text \<open>
  The files the service can read: no entry when the path does not exist, otherwise what
  \<^verbatim>\<open>pd.read_csv\<close> makes of the file, a frame or an exception.
\<close>

type_synonym file_system = "string \<Rightarrow> (py_exception + data_frame) option"

definition load_dataset :: "file_system \<Rightarrow> string \<Rightarrow> py_exception + data_frame" where
  "load_dataset fs path = (case fs path of None \<Rightarrow> Inr empty_frame | Some r \<Rightarrow> r)"

text \<open>
  \<^verbatim>\<open>get_dataset\<close> memoises \<^verbatim>\<open>load_dataset\<close> by path; on an unchanged file system
  it returns what \<^verbatim>\<open>load_dataset\<close> returns.
\<close>

definition get_dataset :: "file_system \<Rightarrow> string \<Rightarrow> py_exception + data_frame" where
  "get_dataset fs path = load_dataset fs path"

definition default_csv_path :: string where
  "default_csv_path = ''../application_train.csv''"

text \<open>
  The JSON bodies of the service. The error texts of the source are
  \<^verbatim>\<open>Dataset introuvable ou vide\<close>, \<^verbatim>\<open>Parametre client_id requis\<close>,
  \<^verbatim>\<open>Client <id> introuvable\<close> and, for a caught exception, its \<^verbatim>\<open>str\<close>.
\<close>

datatype error_message =
    Dataset_unavailable
  | Client_id_required
  | Client_not_found int
  | Fault string

datatype body = Error_json error_message | Prediction_json prediction

type_synonym response = "body \<times> nat"

text \<open>
  The decorator: the wrapped function either returns a response or raises. The clause
  \<^verbatim>\<open>except Exception\<close> catches the instances of \<^verbatim>\<open>Exception\<close> and answers 500 with
  the text of the exception; any other exception goes on to the caller.
\<close>

definition api_error_handler ::
  "('a \<Rightarrow> py_exception + response) \<Rightarrow> 'a \<Rightarrow> py_exception + response" where
  "api_error_handler func args =
     (case func args of
        Inr resp \<Rightarrow> Inr resp
      | Inl exc \<Rightarrow>
          (if is_Exception exc then Inr (Error_json (Fault (str_exc exc)), 500)
           else Inl exc))"

text \<open>\<^verbatim>\<open>df[mask]\<close>: the rows whose mask entry is True.\<close>

definition df_where :: "data_frame \<Rightarrow> bool list \<Rightarrow> data_frame" where
  "df_where df flags = df\<lparr>rows := map fst (filter snd (zip (rows df) flags))\<rparr>"

text \<open>\<^verbatim>\<open>df.iloc[0]\<close>\<close>

definition iloc0 :: "data_frame \<Rightarrow> py_exception + series_row" where
  "iloc0 df =
     (case rows df of
        [] \<Rightarrow> Inl (IndexError ''single positional indexer is out-of-bounds'')
      | r # _ \<Rightarrow> Inr (as_series df r))"

text \<open>\<^verbatim>\<open>request.args.get("path", <default path>)\<close>\<close>

definition csv_path_of :: "request \<Rightarrow> string" where
  "csv_path_of req = (case path_arg req of None \<Rightarrow> default_csv_path | Some p \<Rightarrow> p)"

text \<open>The body of the route, before the decorator.\<close>

definition predict_default_body :: "file_system \<Rightarrow> request \<Rightarrow> py_exception + response" where
  "predict_default_body fs req =
     (let cid = client_id_arg req;
          csv_path = csv_path_of req
      in case get_dataset fs csv_path of
           Inl exc \<Rightarrow> Inl exc
         | Inr df \<Rightarrow>
             (if df_empty df then Inr (Error_json Dataset_unavailable, 400)
              else (case cid of
                None \<Rightarrow> Inr (Error_json Client_id_required, 400)
              | Some c \<Rightarrow>
                 (case df_getitem df ''SK_ID_CURR'' of
                    Inl exc \<Rightarrow> Inl exc
                  | Inr ids \<Rightarrow>
                      (let sel = df_where df (map (\<lambda>v. v = of_int c) ids)
                       in if df_empty sel then Inr (Error_json (Client_not_found c), 404)
                          else (case iloc0 sel of
                            Inl exc \<Rightarrow> Inl exc
                          | Inr row \<Rightarrow>
                              (let score = simple_risk_score row;
                                   result = format_prediction row score df
                               in Inr (Prediction_json result, 200))))))))"

definition predict_default :: "file_system \<Rightarrow> request \<Rightarrow> py_exception + response" where
  "predict_default fs = api_error_handler (predict_default_body fs)"

section \<open>Presentation Client: client_prediction.py\<close>

definition risk_level :: "rat \<Rightarrow> string" where
  "risk_level score =
     (if binary64 (7 / 10) \<le> score then ''Eleve''
      else if binary64 (4 / 10) \<le> score then ''Modere''
      else ''Faible'')"

record local_risk =
  risk_score :: rat
  risk_level_name :: string
  recommendation :: string
  source :: string

definition compute_local_risk :: "series_row \<Rightarrow> local_risk" where
  "compute_local_risk row =
     (let income = float_or_zero row ''AMT_INCOME_TOTAL'';
          credit = float_or_zero row ''AMT_CREDIT'';
          ratio = (if 0 < income then float_div credit income else 1 / 2);
          score = min (max (float_div ratio 5) 0) 1
      in \<lparr>risk_score = py_round score 3,
          risk_level_name = risk_level score,
          recommendation = ''Score calcule localement sur le ratio credit/revenu.'',
          source = ''local''\<rparr>)"

section \<open>The percentile in the words of the specification\<close>

text \<open>
  The fraction of the reference population strictly below \<open>v\<close>, times 100, rounded to
  one decimal: \<^verbatim>\<open>round(mean(C < v) * 100, 1)\<close>, computed on floats.
\<close>

definition percentile_spec :: "rat list \<Rightarrow> rat \<Rightarrow> rat" where
  "percentile_spec C v =
     py_round
       (float_mul
          (float_div (of_nat (length (filter (\<lambda>c. binary64 c < v) C))) (of_nat (length C)))
          100) 1"

section \<open>Example data\<close>

definition example_row :: "rat \<Rightarrow> rat \<Rightarrow> rat \<Rightarrow> string \<Rightarrow> rat" where
  "example_row i c n =
     (\<lambda>label. if label = ''SK_ID_CURR'' then i
              else if label = ''AMT_CREDIT'' then c
              else if label = ''AMT_INCOME_TOTAL'' then n else 0)"

text \<open>The two clients of the specification's scenario.\<close>

definition scenario_frame :: data_frame where
  "scenario_frame =
     \<lparr>columns = [''SK_ID_CURR'', ''AMT_CREDIT'', ''AMT_INCOME_TOTAL''],
      rows = [example_row 1 10000 20000, example_row 2 50000 10000]\<rparr>"

text \<open>A CSV with amounts but no identifier column.\<close>

definition frame_without_ids :: data_frame where
  "frame_without_ids =
     \<lparr>columns = [''AMT_CREDIT'', ''AMT_INCOME_TOTAL''], rows = [example_row 0 10000 20000]\<rparr>"

text \<open>A CSV with a header line and no data line.\<close>

definition header_only_frame :: data_frame where
  "header_only_frame =
     \<lparr>columns = [''SK_ID_CURR'', ''AMT_CREDIT'', ''AMT_INCOME_TOTAL''], rows = []\<rparr>"

text \<open>A frame of 80 clients, 23 of them with a credit below 50000.\<close>

definition eighty_frame :: data_frame where
  "eighty_frame =
     \<lparr>columns = [''SK_ID_CURR'', ''AMT_CREDIT'', ''AMT_INCOME_TOTAL''],
      rows = map (\<lambda>i. example_row (of_nat i) 10000 20000) [0..<23]
           @ map (\<lambda>i. example_row (of_nat i) 90000 20000) [23..<80]\<rparr>"

text \<open>A file system whose only file is the default CSV.\<close>

definition one_file :: "data_frame \<Rightarrow> file_system" where
  "one_file df = (\<lambda>path. if path = default_csv_path then Some (Inr df) else None)"

text \<open>The default CSV exists and has no line at all: \<^verbatim>\<open>pd.read_csv\<close> raises.\<close>

definition zero_byte_file :: file_system where
  "zero_byte_file =
     (\<lambda>path. if path = default_csv_path
              then Some (Inl (EmptyDataError ''No columns to parse from file'')) else None)"

text \<open>Reading the default CSV is interrupted from the keyboard.\<close>

definition interrupted_read :: file_system where
  "interrupted_read =
     (\<lambda>path. if path = default_csv_path then Some (Inl KeyboardInterrupt) else None)"

definition request_for :: "int \<Rightarrow> request" where
  "request_for c = \<lparr>client_id_arg = Some c, path_arg = None\<rparr>"

definition request_without_id :: request where
  "request_without_id = \<lparr>client_id_arg = None, path_arg = None\<rparr>"

section \<open>Rounding\<close>

lemma round_half_even_lower: "\<lfloor>x\<rfloor> \<le> round_half_even x"
  by (simp add: round_half_even_def Let_def)

lemma round_half_even_upper: "round_half_even x \<le> \<lfloor>x\<rfloor> + 1"
  by (simp add: round_half_even_def Let_def)

lemma round_half_even_of_int: "round_half_even (of_int k) = k"
  by (simp add: round_half_even_def Let_def)

lemma round_half_even_mono:
  assumes "x \<le> y"
  shows "round_half_even x \<le> round_half_even y"
proof (cases "\<lfloor>x\<rfloor> = \<lfloor>y\<rfloor>")
  case True
  with assms show ?thesis
    by (auto simp: round_half_even_def Let_def)
next
  case False
  with assms have "\<lfloor>x\<rfloor> < \<lfloor>y\<rfloor>"
    using floor_mono [of x y] by linarith
  then have "round_half_even x \<le> \<lfloor>y\<rfloor>"
    using round_half_even_upper [of x] by linarith
  then show ?thesis
    using round_half_even_lower [of y] by linarith
qed

lemma bitlen_powi_bounds:
  assumes "0 < (n::int)"
  shows "2 powi (bitlen n - 1) \<le> (of_int n :: rat)" and "(of_int n :: rat) < 2 powi bitlen n"
proof -
  from assms have b: "1 \<le> bitlen n"
    by (simp add: bitlen_alt_def)
  have "(2::int) ^ nat (bitlen n - 1) \<le> n" "n < 2 ^ nat (bitlen n)"
    using bitlen_bounds [OF assms] by simp_all
  then have "(of_int ((2::int) ^ nat (bitlen n - 1)) :: rat) \<le> of_int n"
    "(of_int n :: rat) < of_int ((2::int) ^ nat (bitlen n))"
    by (simp_all only: of_int_le_iff of_int_less_iff)
  with b show "2 powi (bitlen n - 1) \<le> (of_int n :: rat)" "(of_int n :: rat) < 2 powi bitlen n"
    by (simp_all add: power_int_def)
qed

lemma pos_rat_bounds:
  assumes "0 < x"
  shows "2 powi (bitlen (fst (quotient_of x)) - bitlen (snd (quotient_of x)) - 1) < x"
    and "x < 2 powi (bitlen (fst (quotient_of x)) - bitlen (snd (quotient_of x)) + 1)"
proof -
  obtain p q where pq: "quotient_of x = (p, q)" by (cases "quotient_of x")
  then have q: "0 < q" and x: "x = of_int p / of_int q"
    by (simp_all add: quotient_of_denom_pos quotient_of_div)
  with assms have p: "0 < p"
    by (simp add: zero_less_divide_iff)
  let ?P = "of_int p :: rat" and ?Q = "of_int q :: rat"
  have Q0: "0 < ?Q" using q by simp
  have lo: "2 powi (bitlen p - 1) \<le> ?P" and hi: "?P < 2 powi bitlen p"
    using bitlen_powi_bounds [OF p] by simp_all
  have qlo: "2 powi (bitlen q - 1) \<le> ?Q" and qhi: "?Q < 2 powi bitlen q"
    using bitlen_powi_bounds [OF q] by simp_all
  have "2 powi (bitlen p - bitlen q - 1) * ?Q < 2 powi (bitlen p - bitlen q - 1) * 2 powi bitlen q"
    using qhi by (simp add: zero_less_power_int)
  also have "\<dots> = 2 powi (bitlen p - 1)"
    by (simp add: power_int_add [symmetric])
  finally have "2 powi (bitlen p - bitlen q - 1) * ?Q < ?P"
    using lo by simp
  then have 1: "2 powi (bitlen p - bitlen q - 1) < x"
    using Q0 by (simp add: x pos_less_divide_eq)
  have "?P < 2 powi bitlen p" by (rule hi)
  also have "\<dots> = 2 powi (bitlen p - bitlen q + 1) * 2 powi (bitlen q - 1)"
    by (simp add: power_int_add [symmetric])
  also have "\<dots> \<le> 2 powi (bitlen p - bitlen q + 1) * ?Q"
    using qlo by (simp add: zero_less_power_int)
  finally have 2: "x < 2 powi (bitlen p - bitlen q + 1)"
    using Q0 by (simp add: x pos_divide_less_eq)
  from 1 2 pq show "2 powi (bitlen (fst (quotient_of x)) - bitlen (snd (quotient_of x)) - 1) < x"
    "x < 2 powi (bitlen (fst (quotient_of x)) - bitlen (snd (quotient_of x)) + 1)"
    by simp_all
qed

lemma float_exponent_bounds:
  assumes "x \<noteq> 0"
  shows "2 powi float_exponent x \<le> \<bar>x\<bar>" and "\<bar>x\<bar> < 2 powi (float_exponent x + 1)"
  using pos_rat_bounds [of "\<bar>x\<bar>"] assms
  by (auto simp: float_exponent_def Let_def)


lemma round_half_even_neg: "round_half_even (- x) = - round_half_even x"
proof (cases "x \<in> \<int>")
  case True
  then obtain k where "x = of_int k" by (auto elim: Ints_cases)
  then have "round_half_even (- x) = round_half_even (of_int (- k))" by simp
  also have "\<dots> = - k" by (rule round_half_even_of_int)
  finally show ?thesis using \<open>x = of_int k\<close> by (simp add: round_half_even_of_int)
next
  case False
  then have "x \<noteq> of_int \<lfloor>x\<rfloor>"
    by (metis Ints_of_int)
  then have fl: "\<lfloor>- x\<rfloor> = - \<lfloor>x\<rfloor> - 1"
    by (simp add: floor_minus ceiling_altdef)
  show ?thesis
    unfolding round_half_even_def Let_def fl
    by (auto simp: algebra_simps)
qed

lemma float_exponent_neg: "float_exponent (- x) = float_exponent x"
  by (simp add: float_exponent_def)

lemma binary64_neg: "binary64 (- x) = - binary64 x"
  by (simp add: binary64_def float_exponent_neg round_half_even_neg Let_def)

lemma binary64_nonneg:
  assumes "0 \<le> x"
  shows "0 \<le> binary64 x"
proof (cases "x = 0")
  case True
  then show ?thesis by (simp add: binary64_def)
next
  case False
  define e where "e = max (float_exponent x - 52) (- 1074)"
  have "0 \<le> x / 2 powi e"
    using assms by (simp add: zero_le_divide_iff)
  then have "round_half_even 0 \<le> round_half_even (x / 2 powi e)"
    by (rule round_half_even_mono)
  then have "0 \<le> round_half_even (x / 2 powi e)"
    using round_half_even_of_int [of 0] by simp
  with False show ?thesis
    by (simp add: binary64_def Let_def e_def [symmetric])
qed

lemma binary64_mono_pos:
  assumes "0 < x" and "x \<le> y"
  shows "binary64 x \<le> binary64 y"
proof -
  define ex where "ex = float_exponent x"
  define ey where "ey = float_exponent y"
  define sx where "sx = max (ex - 52) (- 1074)"
  define sy where "sy = max (ey - 52) (- 1074)"
  from assms have y: "0 < y" by simp
  have bx: "2 powi ex \<le> x" "x < 2 powi (ex + 1)"
    using float_exponent_bounds [of x] assms(1) by (simp_all add: ex_def)
  have by': "2 powi ey \<le> y" "y < 2 powi (ey + 1)"
    using float_exponent_bounds [of y] y by (simp_all add: ey_def)
  have fx: "binary64 x = of_int (round_half_even (x / 2 powi sx)) * 2 powi sx"
    using assms(1) by (simp add: binary64_def Let_def sx_def ex_def)
  have fy: "binary64 y = of_int (round_half_even (y / 2 powi sy)) * 2 powi sy"
    using y by (simp add: binary64_def Let_def sy_def ey_def)
  have "2 powi ex < (2::rat) powi (ey + 1)"
    using bx(1) assms(2) by'(2) by linarith
  then have exy: "ex \<le> ey"
    using power_int_increasing [of "ey + 1" ex "2::rat"] by (cases "ex \<le> ey") simp_all
  show ?thesis
  proof (cases "sx = sy")
    case True
    have "x / 2 powi sy \<le> y / 2 powi sy"
      using assms(2) by (simp add: divide_right_mono)
    then have "round_half_even (x / 2 powi sy) \<le> round_half_even (y / 2 powi sy)"
      by (rule round_half_even_mono)
    then show ?thesis
      unfolding fx fy True by (simp add: mult_right_mono)
  next
    case False
    with exy have lt: "sx < sy" and sy: "sy = ey - 52"
      by (auto simp: sx_def sy_def)
    then have d: "0 \<le> ey - sx" "ex < ey"
      using exy by (auto simp: sx_def sy_def)
    have "x < 2 powi ey"
      using bx(2) d(2) power_int_increasing [of "ex + 1" ey "2::rat"] by simp
    then have "x / 2 powi sx \<le> 2 powi ey / 2 powi sx"
      by (simp add: divide_right_mono)
    also have "\<dots> = 2 powi (ey - sx)"
      by (simp add: power_int_diff)
    also have "\<dots> = of_int (2 ^ nat (ey - sx))"
      using d(1) by (simp add: power_int_def)
    finally have "round_half_even (x / 2 powi sx) \<le> round_half_even (of_int (2 ^ nat (ey - sx)))"
      by (rule round_half_even_mono)
    then have "round_half_even (x / 2 powi sx) \<le> 2 ^ nat (ey - sx)"
      by (simp only: round_half_even_of_int)
    then have "(of_int (round_half_even (x / 2 powi sx)) :: rat) \<le> of_int (2 ^ nat (ey - sx))"
      by (simp only: of_int_le_iff)
    also have "\<dots> = 2 powi (ey - sx)"
      using d(1) by (simp add: power_int_def)
    finally have "binary64 x \<le> 2 powi (ey - sx) * 2 powi sx"
      unfolding fx by (simp add: mult_right_mono)
    then have ux: "binary64 x \<le> 2 powi ey"
      by (simp add: power_int_add [symmetric])
    have "(of_int (2 ^ 52) :: rat) = 2 powi ey / 2 powi sy"
      by (simp add: sy power_int_diff [symmetric])
    also have "\<dots> \<le> y / 2 powi sy"
      using by'(1) by (simp add: divide_right_mono)
    finally have "round_half_even (of_int (2 ^ 52)) \<le> round_half_even (y / 2 powi sy)"
      by (rule round_half_even_mono)
    then have "2 ^ 52 \<le> round_half_even (y / 2 powi sy)"
      by (simp only: round_half_even_of_int)
    then have "(of_int (2 ^ 52) :: rat) \<le> of_int (round_half_even (y / 2 powi sy))"
      by (simp only: of_int_le_iff)
    then have "(of_int (2 ^ 52) :: rat) * 2 powi sy \<le> binary64 y"
      unfolding fy by (intro mult_right_mono) simp_all
    moreover have "(of_int (2 ^ 52) :: rat) * 2 powi sy = 2 powi ey"
    proof -
      have "(2::rat) powi (52 + sy) = 2 powi 52 * 2 powi sy"
        by (rule power_int_add) simp
      moreover have "52 + sy = ey" using sy by simp
      moreover have "(2::rat) powi 52 = of_int (2 ^ 52)" by (simp add: power_int_def)
      ultimately show ?thesis by simp
    qed
    ultimately have "2 powi ey \<le> binary64 y"
      by simp
    with ux show ?thesis by linarith
  qed
qed

lemma binary64_mono:
  assumes "x \<le> y"
  shows "binary64 x \<le> binary64 y"
proof -
  consider "0 < x" | "x \<le> 0" "0 \<le> y" | "y < 0" by linarith
  then show ?thesis
  proof cases
    case 1
    then show ?thesis using assms by (rule binary64_mono_pos)
  next
    case 2
    then have "binary64 x \<le> 0" "0 \<le> binary64 y"
      using binary64_nonneg [of "- x"] binary64_nonneg [of y] by (simp_all add: binary64_neg)
    then show ?thesis by linarith
  next
    case 3
    with assms have "binary64 (- y) \<le> binary64 (- x)"
      by (intro binary64_mono_pos) simp_all
    then show ?thesis by (simp add: binary64_neg)
  qed
qed

lemma float_div_mono: "0 \<le> c \<Longrightarrow> a \<le> b \<Longrightarrow> float_div a c \<le> float_div b c"
  unfolding float_div_def by (intro binary64_mono divide_right_mono)

lemma float_mul_mono: "0 \<le> c \<Longrightarrow> a \<le> b \<Longrightarrow> float_mul a c \<le> float_mul b c"
  unfolding float_mul_def by (intro binary64_mono mult_right_mono)

lemma py_round_mono: "x \<le> y \<Longrightarrow> py_round x n \<le> py_round y n"
  unfolding py_round_def
  by (intro binary64_mono divide_right_mono round_half_even_mono mult_right_mono
      iffD2 [OF of_int_le_iff]) simp_all

lemma binary64_0: "binary64 0 = 0"
  by (simp add: binary64_def)

lemma binary64_1: "binary64 1 = 1"
  by code_simp

lemma py_round_0: "py_round 0 n = 0"
  by (simp add: py_round_def round_half_even_def binary64_0)

lemma py_round_1: "py_round 1 n = 1"
proof -
  have "round_half_even (1 * 10 ^ n) = 10 ^ n"
    using round_half_even_of_int [of "10 ^ n"] by simp
  then show ?thesis
    by (simp add: py_round_def binary64_1)
qed

lemma float_div_5_5: "float_div 5 5 = 1"
  by code_simp

lemmas frame_defs = scenario_frame_def frame_without_ids_def header_only_frame_def
  example_row_def one_file_def zero_byte_file_def interrupted_read_def request_for_def
  request_without_id_def csv_path_of_def empty_frame_def df_empty_def

section \<open>The scenario of the specification\<close>

text \<open>
  The service on the two-client table: client 1 has ratio 0.5, probability 0.1, the low
  tier and the normal-repayment decision; client 2 has ratio 5, probability 1, the high
  tier and the default decision, and its credit is above one of the two credits.
\<close>

lemma scenario_client_1:
  "predict_default (one_file scenario_frame) (request_for 1) =
     Inr (Prediction_json
        \<lparr>client_id = Inl 1, probability_default = binary64 (1 / 10),
         prediction_label = ''remboursement_normal'', risk_level_label = ''faible'',
         ratio_credit_income = Some (1 / 2), credit_percentile = Some 0,
         income_percentile = Some 50,
         explanation = [Ratio_clause (1 / 2), Credit_percentile_clause 0,
                        Income_percentile_clause 50]\<rparr>, 200)"
  by code_simp

lemma scenario_client_2:
  "predict_default (one_file scenario_frame) (request_for 2) =
     Inr (Prediction_json
        \<lparr>client_id = Inl 2, probability_default = 1,
         prediction_label = ''defaut'', risk_level_label = ''eleve'',
         ratio_credit_income = Some 5, credit_percentile = Some 50,
         income_percentile = Some 0,
         explanation = [Ratio_clause 5, Credit_percentile_clause 50,
                        Income_percentile_clause 0]\<rparr>, 200)"
  by code_simp

text \<open>The float written \<^verbatim>\<open>0.1\<close>.\<close>

lemma binary64_one_tenth: "binary64 (1 / 10) = 3602879701896397 / 36028797018963968"
  by code_simp

section \<open>The local score and the service's score\<close>

text \<open>
  On a row with positive income and non-negative credit the fallback of the Presentation
  Client and the score of the service are the same float.
\<close>

lemma local_risk_agrees_on_usual_rows:
  assumes "0 < float_or_zero row ''AMT_INCOME_TOTAL''" and "0 \<le> float_or_zero row ''AMT_CREDIT''"
  shows "risk_score (compute_local_risk row) = simple_risk_score row"
proof -
  define q where
    "q = float_div (float_or_zero row ''AMT_CREDIT'') (float_or_zero row ''AMT_INCOME_TOTAL'')"
  have "0 \<le> float_or_zero row ''AMT_CREDIT'' / float_or_zero row ''AMT_INCOME_TOTAL''"
    using assms by simp
  then have q0: "0 \<le> q"
    unfolding q_def float_div_def by (rule binary64_nonneg)
  then have "float_div 0 5 \<le> float_div q 5"
    by (intro float_div_mono) simp_all
  then have d0: "0 \<le> float_div q 5"
    by (simp add: float_div_def binary64_0)
  have eq: "min (max (float_div q 5) 0) 1 = min (float_div (min q 5) 5) 1"
  proof (cases "q \<le> 5")
    case True
    with d0 show ?thesis by (simp add: min_def max_def)
  next
    case False
    then have "float_div 5 5 \<le> float_div q 5"
      by (intro float_div_mono) simp_all
    then have "1 \<le> float_div q 5"
      by (simp only: float_div_5_5)
    with False show ?thesis
      by (simp add: min_def max_def float_div_5_5)
  qed
  have loc: "risk_score (compute_local_risk row) = py_round (min (max (float_div q 5) 0) 1) 3"
    unfolding q_def compute_local_risk_def Let_def using assms(1) by simp
  have srv: "simple_risk_score row = py_round (min (float_div (min q 5) 5) 1) 3"
    unfolding q_def simple_risk_score_def Let_def using assms(1) by simp
  show ?thesis by (simp only: loc srv eq)
qed

text \<open>
  C1. The claim: for every row, \<open>risk_score\<close> of \<open>compute_local_risk\<close> equals
  \<open>simple_risk_score\<close>. The code at a row with income 0 and credit 10000: the service
  returns its neutral 0.5, the fallback takes 0.5 as the ratio and returns the float
  0.1. At a row with credit -10000 and income 20000 the service returns -0.1 and the
  fallback 0.
\<close>

theorem local_risk_diverges_from_service:
  "simple_risk_score [''AMT_CREDIT'' \<mapsto> 10000, ''AMT_INCOME_TOTAL'' \<mapsto> 0] = 1 / 2 \<and>
   risk_score (compute_local_risk [''AMT_CREDIT'' \<mapsto> 10000, ''AMT_INCOME_TOTAL'' \<mapsto> 0])
     = binary64 (1 / 10) \<and>
   binary64 (1 / 10) < 1 / 2 \<and>
   simple_risk_score [''AMT_CREDIT'' \<mapsto> - 10000, ''AMT_INCOME_TOTAL'' \<mapsto> 20000]
     = - binary64 (1 / 10) \<and>
   risk_score (compute_local_risk [''AMT_CREDIT'' \<mapsto> - 10000, ''AMT_INCOME_TOTAL'' \<mapsto> 20000]) = 0"
  by code_simp

section \<open>The ratio field\<close>

text \<open>
  The claim of C2, that the ratio field is the quotient capped at 5, fails at credit
  60000 and income 10000: the field is 6.
\<close>

theorem ratio_field_not_capped:
  "0 < float_or_zero (as_series scenario_frame (example_row 3 60000 10000)) ''AMT_INCOME_TOTAL'' \<and>
   ratio_credit_income
     (format_prediction (as_series scenario_frame (example_row 3 60000 10000)) 1 scenario_frame)
     = Some 6 \<and>
   ratio_credit_income
     (format_prediction (as_series scenario_frame (example_row 3 60000 10000)) 1 scenario_frame)
     \<noteq> Some (min (60000 / 10000) 5)"
  by code_simp

text \<open>
  C2, amended. For every client row with income above 0, the field
  \<open>ratio_credit_income\<close> of the prediction is Python's \<^verbatim>\<open>round(credit / income, 3)\<close>:
  the float quotient of credit and income, rounded to three decimals, with no cap (the
  cap at 5 is applied inside the probability only). The field is at least 5 whenever
  the quotient is.
\<close>

theorem ratio_field_rounded_quotient:
  "0 < float_or_zero row ''AMT_INCOME_TOTAL'' \<Longrightarrow>
   ratio_credit_income (format_prediction row score df) =
     Some (py_round
             (float_div (float_or_zero row ''AMT_CREDIT'') (float_or_zero row ''AMT_INCOME_TOTAL''))
             3) \<and>
   (5 \<le> float_div (float_or_zero row ''AMT_CREDIT'') (float_or_zero row ''AMT_INCOME_TOTAL'')
      \<longrightarrow> (\<exists>r. ratio_credit_income (format_prediction row score df) = Some r \<and> 5 \<le> r))"
proof -
  assume h: "0 < float_or_zero row ''AMT_INCOME_TOTAL''"
  let ?q = "float_div (float_or_zero row ''AMT_CREDIT'') (float_or_zero row ''AMT_INCOME_TOTAL'')"
  have eq: "ratio_credit_income (format_prediction row score df) = Some (py_round ?q 3)"
    using h by (simp add: format_prediction_def Let_def)
  have five: "py_round 5 3 = 5"
    by code_simp
  have "5 \<le> ?q \<longrightarrow> 5 \<le> py_round ?q 3"
    using py_round_mono [of 5 ?q 3] by (simp add: five)
  with eq show ?thesis by simp
qed

text \<open>
  The instances: credit 50100 and income 200000 give the float 0.251 (the float quotient
  lies above the decimal tie 0.2505); credit 70000 and income 10000 give 7, above the
  cap of the claim; credit 10000 and income 30000 give 0.333.
\<close>

theorem ratio_field_rounded_quotient_witness:
  "0 < float_or_zero (as_series scenario_frame (example_row 1 50100 200000)) ''AMT_INCOME_TOTAL'' \<and>
   ratio_credit_income
     (format_prediction (as_series scenario_frame (example_row 1 50100 200000)) (1 / 10) scenario_frame)
     = Some (binary64 (251 / 1000)) \<and>
   ratio_credit_income
     (format_prediction (as_series scenario_frame (example_row 1 70000 10000)) 1 scenario_frame)
     = Some 7 \<and>
   ratio_credit_income
     (format_prediction (as_series scenario_frame (example_row 1 10000 30000)) (1 / 10) scenario_frame)
     = Some (binary64 (333 / 1000))"
proof -
  let ?row = "as_series scenario_frame (example_row 1 50100 200000)"
  let ?row7 = "as_series scenario_frame (example_row 1 70000 10000)"
  let ?row3 = "as_series scenario_frame (example_row 1 10000 30000)"
  have h: "0 < float_or_zero ?row ''AMT_INCOME_TOTAL''"
    by code_simp
  have h7: "0 < float_or_zero ?row7 ''AMT_INCOME_TOTAL''"
    by code_simp
  have h3: "0 < float_or_zero ?row3 ''AMT_INCOME_TOTAL''"
    by code_simp
  have v: "py_round (float_div (float_or_zero ?row ''AMT_CREDIT'')
                       (float_or_zero ?row ''AMT_INCOME_TOTAL'')) 3 = binary64 (251 / 1000)"
    by code_simp
  have v7: "py_round (float_div (float_or_zero ?row7 ''AMT_CREDIT'')
                        (float_or_zero ?row7 ''AMT_INCOME_TOTAL'')) 3 = 7"
    by code_simp
  have v3: "py_round (float_div (float_or_zero ?row3 ''AMT_CREDIT'')
                        (float_or_zero ?row3 ''AMT_INCOME_TOTAL'')) 3 = binary64 (333 / 1000)"
    by code_simp
  from h v v7 v3
    ratio_field_rounded_quotient [OF h, of "1 / 10" scenario_frame]
    ratio_field_rounded_quotient [OF h7, of 1 scenario_frame]
    ratio_field_rounded_quotient [OF h3, of "1 / 10" scenario_frame]
  show ?thesis by simp
qed

section \<open>The range of the probability\<close>

text \<open>With a non-negative credit the score lies between 0 and 1.\<close>

lemma simple_risk_score_bounds:
  assumes "0 \<le> float_or_zero row ''AMT_CREDIT''"
  shows "0 \<le> simple_risk_score row \<and> simple_risk_score row \<le> 1"
proof (cases "float_or_zero row ''AMT_INCOME_TOTAL'' \<le> 0")
  case True
  then show ?thesis by (simp add: simple_risk_score_def)
next
  case False
  define q where
    "q = float_div (float_or_zero row ''AMT_CREDIT'') (float_or_zero row ''AMT_INCOME_TOTAL'')"
  define x where "x = min (float_div (min q 5) 5) 1"
  have "0 \<le> float_or_zero row ''AMT_CREDIT'' / float_or_zero row ''AMT_INCOME_TOTAL''"
    using assms False by simp
  then have "0 \<le> q"
    unfolding q_def float_div_def by (rule binary64_nonneg)
  then have "float_div 0 5 \<le> float_div (min q 5) 5"
    by (intro float_div_mono) simp_all
  then have "0 \<le> x" "x \<le> 1"
    by (simp_all add: x_def float_div_def binary64_0)
  then have "py_round 0 3 \<le> py_round x 3" "py_round x 3 \<le> py_round 1 3"
    by (simp_all add: py_round_mono)
  then have "0 \<le> py_round x 3 \<and> py_round x 3 \<le> 1"
    by (simp add: py_round_0 py_round_1)
  with False show ?thesis
    by (simp add: simple_risk_score_def Let_def x_def q_def)
qed

text \<open>
  C3. The claim: for every row, whatever its credit and income, the probability of
  \<open>simple_risk_score\<close> lies in [0, 1]. The code has no lower clamp: at credit -10000
  and income 20000 it returns the float -0.1.
\<close>

theorem simple_risk_score_below_zero:
  "simple_risk_score [''AMT_CREDIT'' \<mapsto> - 10000, ''AMT_INCOME_TOTAL'' \<mapsto> 20000]
     = - binary64 (1 / 10) \<and>
   \<not> (0 \<le> simple_risk_score [''AMT_CREDIT'' \<mapsto> - 10000, ''AMT_INCOME_TOTAL'' \<mapsto> 20000])"
  by code_simp

section \<open>The responses of the prediction route\<close>














text \<open>
  C10. In the prediction route the empty-dataset check comes before the
  missing-parameter check: when the dataset resolves to an empty table and the request
  has no \<^verbatim>\<open>client_id\<close>, the response is the dataset-unavailable error (400), not the
  missing-parameter error.
\<close>

theorem empty_dataset_check_first:
  "get_dataset fs (csv_path_of req) = Inr df \<Longrightarrow> df_empty df \<Longrightarrow> client_id_arg req = None \<Longrightarrow>
   predict_default fs req = Inr (Error_json Dataset_unavailable, 400) \<and>
   predict_default fs req \<noteq> Inr (Error_json Client_id_required, 400)"
  by (simp add: predict_default_def api_error_handler_def predict_default_body_def Let_def)

theorem empty_dataset_check_first_witness:
  "get_dataset (\<lambda>path. None) (csv_path_of request_without_id) = Inr empty_frame \<and>
   df_empty empty_frame \<and> client_id_arg request_without_id = None \<and>
   predict_default (\<lambda>path. None) request_without_id = Inr (Error_json Dataset_unavailable, 400) \<and>
   get_dataset (one_file header_only_frame) (csv_path_of request_without_id)
     = Inr header_only_frame \<and>
   predict_default (one_file header_only_frame) request_without_id
     = Inr (Error_json Dataset_unavailable, 400)"
proof -
  have a: "get_dataset (\<lambda>path. None) (csv_path_of request_without_id) = Inr empty_frame"
    by (simp add: get_dataset_def load_dataset_def)
  have b: "df_empty empty_frame"
    by (simp add: frame_defs)
  have c: "client_id_arg request_without_id = None"
    by (simp add: frame_defs)
  have d: "get_dataset (one_file header_only_frame) (csv_path_of request_without_id)
             = Inr header_only_frame"
    by (simp add: get_dataset_def load_dataset_def frame_defs)
  have e: "df_empty header_only_frame"
    by (simp add: frame_defs)
  from a b c d empty_dataset_check_first [OF a b c] empty_dataset_check_first [OF d e c]
  show ?thesis by simp
qed

section \<open>The error decorator\<close>




section \<open>Neutral score, decision and tier\<close>

text \<open>
  C5. For every client row whose income is at most 0 (a row without the income column
  counts as income 0), the score is exactly 0.5 and the field \<open>ratio_credit_income\<close> of
  the prediction is null.
\<close>

theorem nonpositive_income_neutral:
  "float_or_zero row ''AMT_INCOME_TOTAL'' \<le> 0 \<Longrightarrow>
   simple_risk_score row = 1 / 2 \<and>
   probability_default (format_prediction row (simple_risk_score row) df) = 1 / 2 \<and>
   ratio_credit_income (format_prediction row (simple_risk_score row) df) = None"
  by (simp add: format_prediction_def simple_risk_score_def Let_def)

theorem nonpositive_income_neutral_witness:
  "float_or_zero (as_series scenario_frame (example_row 4 10000 (- 5))) ''AMT_INCOME_TOTAL'' \<le> 0 \<and>
   simple_risk_score (as_series scenario_frame (example_row 4 10000 (- 5))) = 1 / 2 \<and>
   ratio_credit_income
     (format_prediction (as_series scenario_frame (example_row 4 10000 (- 5)))
        (simple_risk_score (as_series scenario_frame (example_row 4 10000 (- 5)))) scenario_frame)
     = None"
proof -
  have h: "float_or_zero (as_series scenario_frame (example_row 4 10000 (- 5))) ''AMT_INCOME_TOTAL'' \<le> 0"
    by code_simp
  from h nonpositive_income_neutral [OF h, of scenario_frame] show ?thesis by simp
qed

text \<open>
  C6. For every score (in particular every probability in [0, 1]), the decision of the
  prediction is the default label exactly when the score is at least 0.5 and the
  normal-repayment label otherwise; the tier is the high one exactly when the score is
  at least 0.7, the moderate one exactly when it is at least 0.4 and below 0.7, the low
  one exactly when it is below 0.4, where 0.7 and 0.4 are the floats of the source. The
  three conditions exclude each other and cover every score.
\<close>

theorem decision_and_tier_thresholds:
  "(prediction_label (format_prediction row score df) = ''defaut'' \<longleftrightarrow> 1 / 2 \<le> score) \<and>
   (prediction_label (format_prediction row score df) = ''remboursement_normal''
      \<longleftrightarrow> score < 1 / 2) \<and>
   (risk_level_label (format_prediction row score df) = ''eleve''
      \<longleftrightarrow> binary64 (7 / 10) \<le> score) \<and>
   (risk_level_label (format_prediction row score df) = ''modere''
      \<longleftrightarrow> binary64 (4 / 10) \<le> score \<and> score < binary64 (7 / 10)) \<and>
   (risk_level_label (format_prediction row score df) = ''faible''
      \<longleftrightarrow> score < binary64 (4 / 10)) \<and>
   binary64 (4 / 10) < binary64 (7 / 10)"
proof -
  have lt: "binary64 (4 / 10) < binary64 (7 / 10)"
    by code_simp
  then show ?thesis
    by (auto simp add: format_prediction_def Let_def)
qed

text \<open>
  The instances are the scores with three decimals that the service produces: 0.5 is a
  default of the moderate tier, 0.7 is of the high tier and 0.699 of the moderate one,
  0.4 is of the moderate tier and 0.399 a normal repayment of the low tier.
\<close>

theorem decision_and_tier_thresholds_witness:
  "prediction_label (format_prediction Map.empty (1 / 2) empty_frame) = ''defaut'' \<and>
   risk_level_label (format_prediction Map.empty (1 / 2) empty_frame) = ''modere'' \<and>
   risk_level_label (format_prediction Map.empty (py_round (7 / 10) 3) empty_frame) = ''eleve'' \<and>
   risk_level_label (format_prediction Map.empty (py_round (699 / 1000) 3) empty_frame) = ''modere'' \<and>
   risk_level_label (format_prediction Map.empty (py_round (4 / 10) 3) empty_frame) = ''modere'' \<and>
   prediction_label (format_prediction Map.empty (py_round (399 / 1000) 3) empty_frame)
     = ''remboursement_normal'' \<and>
   risk_level_label (format_prediction Map.empty (py_round (399 / 1000) 3) empty_frame) = ''faible''"
proof -
  have v: "(1 / 2 :: rat) \<le> 1 / 2" "binary64 (4 / 10) \<le> 1 / 2" "1 / 2 < binary64 (7 / 10)"
    "binary64 (7 / 10) \<le> py_round (7 / 10) 3"
    "binary64 (4 / 10) \<le> py_round (699 / 1000) 3" "py_round (699 / 1000) 3 < binary64 (7 / 10)"
    "binary64 (4 / 10) \<le> py_round (4 / 10) 3" "py_round (4 / 10) 3 < binary64 (7 / 10)"
    "py_round (399 / 1000) 3 < binary64 (4 / 10)" "py_round (399 / 1000) 3 < 1 / 2"
    by code_simp+
  from v
    decision_and_tier_thresholds [of Map.empty "1 / 2" empty_frame]
    decision_and_tier_thresholds [of Map.empty "py_round (7 / 10) 3" empty_frame]
    decision_and_tier_thresholds [of Map.empty "py_round (699 / 1000) 3" empty_frame]
    decision_and_tier_thresholds [of Map.empty "py_round (4 / 10) 3" empty_frame]
    decision_and_tier_thresholds [of Map.empty "py_round (399 / 1000) 3" empty_frame]
  show ?thesis by simp
qed

section \<open>The percentile\<close>

lemma sum_list_of_bool:
  "sum_list (map of_bool (map P s)) = (of_nat (length (filter P s)) :: rat)"
  by (induction s) simp_all

lemma mask_mean_filter:
  "mask_mean (map P s) = float_div (of_nat (length (filter P s))) (of_nat (length s))"
  unfolding mask_mean_def by (simp only: sum_list_of_bool length_map)

lemma length_filter_mono:
  "(\<And>x. P x \<Longrightarrow> Q x) \<Longrightarrow> length (filter P s) \<le> length (filter Q s)"
  by (induction s) auto

text \<open>
  The claim of C7, that the percentile is null only for an absent or an empty column,
  fails on a non-empty text column: the comparison raises, the exception is caught and
  the result is null.
\<close>

theorem text_column_percentile_null:
  "Some (Text [''Married'', ''Single'']) \<noteq> None \<and>
   \<not> series_empty (Text [''Married'', ''Single'']) \<and>
   compute_percentile (Some (Text [''Married'', ''Single''])) 5 = None"
  by code_simp

text \<open>
  C7, amended. For every numeric reference column \<open>C\<close> that is present and not empty
  and every value \<open>v\<close>, \<open>compute_percentile\<close> returns the percentile of the
  specification, \<^verbatim>\<open>round(mean(C < v) * 100, 1)\<close> computed on floats: the share of the
  cells strictly below \<open>v\<close> (a cell equal to \<open>v\<close> does not count) times 100 and rounded
  to one decimal. In particular it is 0 when no cell is below \<open>v\<close> and 100 when all
  are. It returns null exactly when the column is absent, empty, or a text column
  (whose comparison with \<open>v\<close> raises).
\<close>

theorem compute_percentile_refines_spec:
  "(compute_percentile C v = None \<longleftrightarrow>
      C = None \<or> (\<exists>s. C = Some s \<and> series_empty s) \<or> (\<exists>t. C = Some (Text t))) \<and>
   (\<forall>s. C = Some (Numeric s) \<and> s \<noteq> [] \<longrightarrow>
      compute_percentile C v = Some (percentile_spec s v) \<and>
      (filter (\<lambda>c. binary64 c < v) s = [] \<longrightarrow> compute_percentile C v = Some 0) \<and>
      (filter (\<lambda>c. binary64 c < v) s = s \<longrightarrow> compute_percentile C v = Some 100))"
proof (cases C)
  case None
  then show ?thesis by (simp add: compute_percentile_def)
next
  case (Some col)
  show ?thesis
  proof (cases col)
    case (Numeric cells)
    have zero: "py_round (float_mul (float_div 0 (of_nat (length cells))) 100) (Suc 0) = 0"
      by (simp add: float_div_def float_mul_def binary64_0 py_round_0)
    have "py_round (float_mul 1 100) 1 = 100"
      by code_simp
    then have hundred: "py_round (float_mul 1 100) (Suc 0) = 100"
      by simp
    have all: "cells \<noteq> [] \<Longrightarrow>
        float_div (of_nat (length cells)) (of_nat (length cells)) = 1"
      by (simp add: float_div_def binary64_1)
    from Some Numeric show ?thesis
      by (auto simp add: compute_percentile_def percentile_spec_def mask_mean_filter Let_def
          zero hundred all)
  next
    case (Text cells)
    with Some show ?thesis
      by (cases cells) (simp_all add: compute_percentile_def)
  qed
qed

text \<open>
  The instances: one of two credits below the value gives 50; 23 of 80 credits below
  the value give the float 28.7 (the float product of the mean and 100 lies below the
  decimal tie 28.75); a header-only table, a table without the column and a text
  column give null.
\<close>

theorem compute_percentile_refines_spec_witness:
  "compute_percentile (df_get scenario_frame ''AMT_CREDIT'') 50000 = Some 50 \<and>
   compute_percentile (df_get eighty_frame ''AMT_CREDIT'') 50000 = Some (binary64 (287 / 10)) \<and>
   binary64 (287 / 10) < 2875 / 100 \<and>
   compute_percentile (df_get scenario_frame ''AMT_CREDIT'') 10000 = Some 0 \<and>
   compute_percentile (df_get scenario_frame ''AMT_CREDIT'') 60000 = Some 100 \<and>
   compute_percentile (df_get header_only_frame ''AMT_CREDIT'') 50000 = None \<and>
   compute_percentile (df_get frame_without_ids ''SK_ID_CURR'') 50000 = None \<and>
   compute_percentile (Some (Text [''Married''])) 50000 = None"
proof -
  have a: "df_get scenario_frame ''AMT_CREDIT'' = Some (Numeric [10000, 50000])"
    by (simp add: df_get_def frame_defs)
  have b: "df_get header_only_frame ''AMT_CREDIT'' = Some (Numeric [])"
    by (simp add: df_get_def frame_defs)
  have c: "df_get frame_without_ids ''SK_ID_CURR'' = None"
    by (simp add: df_get_def frame_defs)
  have d: "percentile_spec [10000, 50000] 50000 = 50"
    "percentile_spec [10000, 50000] 10000 = 0"
    "percentile_spec [10000, 50000] 60000 = 100"
    by code_simp+
  have e: "compute_percentile (df_get eighty_frame ''AMT_CREDIT'') 50000
             = Some (binary64 (287 / 10))"
    "binary64 (287 / 10) < 2875 / 100"
    by code_simp+
  from a b c d e
    compute_percentile_refines_spec [of "Some (Numeric [10000, 50000])" 50000]
    compute_percentile_refines_spec [of "Some (Numeric [10000, 50000])" 10000]
    compute_percentile_refines_spec [of "Some (Numeric [10000, 50000])" 60000]
    compute_percentile_refines_spec [of "Some (Numeric [])" 50000]
    compute_percentile_refines_spec [of None 50000]
    compute_percentile_refines_spec [of "Some (Text [''Married''])" 50000]
  show ?thesis by simp
qed

text \<open>
  C8. For every non-empty reference column and all values \<open>v1 \<le> v2\<close>, the percentile
  of \<open>v1\<close> is at most the percentile of \<open>v2\<close>: on a numeric column both are defined
  and ordered; on a text column both are null.
\<close>

theorem compute_percentile_mono:
  assumes "\<not> series_empty C" and "v1 \<le> v2"
  shows "(\<exists>s p1 p2. C = Numeric s \<and> compute_percentile (Some C) v1 = Some p1 \<and>
            compute_percentile (Some C) v2 = Some p2 \<and> p1 \<le> p2) \<or>
         (\<exists>t. C = Text t \<and> compute_percentile (Some C) v1 = None \<and>
            compute_percentile (Some C) v2 = None)"
proof (cases C)
  case (Numeric s)
  let ?k1 = "length (filter (\<lambda>c. binary64 c < v1) s)"
  let ?k2 = "length (filter (\<lambda>c. binary64 c < v2) s)"
  have "?k1 \<le> ?k2"
    using assms(2) by (intro length_filter_mono) simp
  then have "(of_nat ?k1 :: rat) \<le> of_nat ?k2"
    by simp
  then have "float_div (of_nat ?k1) (of_nat (length s)) \<le> float_div (of_nat ?k2) (of_nat (length s))"
    by (intro float_div_mono) simp_all
  then have "float_mul (mask_mean (map (\<lambda>c. binary64 c < v1) s)) 100
             \<le> float_mul (mask_mean (map (\<lambda>c. binary64 c < v2) s)) 100"
    unfolding mask_mean_filter by (intro float_mul_mono) simp_all
  then have "py_round (float_mul (mask_mean (map (\<lambda>c. binary64 c < v1) s)) 100) 1
             \<le> py_round (float_mul (mask_mean (map (\<lambda>c. binary64 c < v2) s)) 100) 1"
    by (rule py_round_mono)
  with assms(1) Numeric show ?thesis
    by (simp add: compute_percentile_def Let_def)
next
  case (Text t)
  with assms(1) show ?thesis
    by (cases t) (simp_all add: compute_percentile_def)
qed

theorem compute_percentile_mono_witness:
  "\<not> series_empty (Numeric [10000, 50000, 30000, 70000]) \<and> (20000 :: rat) \<le> 60000 \<and>
   compute_percentile (Some (Numeric [10000, 50000, 30000, 70000])) 20000 = Some 25 \<and>
   compute_percentile (Some (Numeric [10000, 50000, 30000, 70000])) 60000 = Some 75 \<and>
   (\<exists>p1 p2. compute_percentile (Some (Numeric [10000, 50000, 30000, 70000])) 20000 = Some p1 \<and>
            compute_percentile (Some (Numeric [10000, 50000, 30000, 70000])) 60000 = Some p2 \<and> p1 \<le> p2)"
proof -
  have a: "\<not> series_empty (Numeric [10000, 50000, 30000, 70000])" by simp
  have b: "(20000 :: rat) \<le> 60000" by simp
  have c: "compute_percentile (Some (Numeric [10000, 50000, 30000, 70000])) 20000 = Some 25"
    by code_simp
  have d: "compute_percentile (Some (Numeric [10000, 50000, 30000, 70000])) 60000 = Some 75"
    by code_simp
  from a b c d compute_percentile_mono [OF a b] show ?thesis by auto
qed

end
